theory Spec2Isabelle
  imports Complex_Main "HOL-Library.Product_Lexorder" "HOL-Library.Option_ord"
    "HOL-Library.Sublist" "HOL-Library.Multiset"
begin

section \<open>Python values used by the timeline engine\<close>

subsection \<open>Strings\<close>

text \<open>
  A Python \<^verbatim>\<open>str\<close> is a sequence of code points. The model is \<^typ>\<open>string\<close>, one
  \<^typ>\<open>char\<close> per code point, which covers the code points below 256 (Latin-1): the
  letter e with acute accent of the keyword list is \<open>CHR 0xE9\<close>.

  \<^verbatim>\<open>str.isspace\<close> on that range: TAB..CR, FS..US, space, NEL and the no-break space.
\<close>

definition py_isspace :: "char \<Rightarrow> bool" where
  "py_isspace c = (let n = (of_char c :: nat) in
     (9 \<le> n \<and> n \<le> 13) \<or> (28 \<le> n \<and> n \<le> 32) \<or> n = 133 \<or> n = 160)"

text \<open>
  \<^verbatim>\<open>str.lower\<close> on that range: A..Z and the accented capitals 0xC0..0xDE (the
  multiplication sign 0xD7 apart) move up by 32, which sets bit 5 (clear in both
  ranges); every other code point stays.
\<close>

definition py_isupper :: "char \<Rightarrow> bool" where
  "py_isupper c = (let n = (of_char c :: nat) in
     (65 \<le> n \<and> n \<le> 90) \<or> (192 \<le> n \<and> n \<le> 222 \<and> n \<noteq> 215))"

definition py_lower_char :: "char \<Rightarrow> char" where
  "py_lower_char c =
     (if py_isupper c
      then (case c of Char b0 b1 b2 b3 b4 b5 b6 b7 \<Rightarrow> Char b0 b1 b2 b3 b4 True b6 b7)
      else c)"

definition lower :: "string \<Rightarrow> string" where
  "lower s = map py_lower_char s"

definition strip :: "string \<Rightarrow> string" where
  "strip s = rev (dropWhile py_isspace (rev (dropWhile py_isspace s)))"

text \<open>The substring test \<^verbatim>\<open>w in s\<close>.\<close>

fun str_in :: "string \<Rightarrow> string \<Rightarrow> bool" where
  "str_in w [] = (w = [])"
| "str_in w (c # cs) = (prefix w (c # cs) \<or> str_in w cs)"

subsection \<open>Dates\<close>

text \<open>
  A \<^verbatim>\<open>datetime.date\<close> is (year, month, day); a naive \<^verbatim>\<open>datetime\<close> is a date
  followed by hour, minute, second and microsecond. Python compares both field by
  field, which is the lexicographic order of the tuples. Datetimes with a UTC offset are
  not modelled. On optional dates the order puts \<open>None\<close> first; the engine only
  ever sorts and filters by it where every date is present.
\<close>

type_synonym date = "nat \<times> nat \<times> nat"
type_synonym datetime = "date \<times> nat \<times> nat \<times> nat \<times> nat"

text \<open>
  The constructor \<^verbatim>\<open>datetime(year, month, day)\<close>: midnight of that day, and \<open>None\<close>
  where Python raises \<^verbatim>\<open>ValueError\<close> (a field out of range).
\<close>

definition is_leap :: "nat \<Rightarrow> bool" where
  "is_leap y = (y mod 4 = 0 \<and> (y mod 100 \<noteq> 0 \<or> y mod 400 = 0))"

definition days_in_month :: "nat \<Rightarrow> nat \<Rightarrow> nat" where
  "days_in_month y m =
     (if m = 2 then (if is_leap y then 29 else 28)
      else if m = 4 \<or> m = 6 \<or> m = 9 \<or> m = 11 then 30 else 31)"

definition datetime :: "nat \<Rightarrow> nat \<Rightarrow> nat \<Rightarrow> datetime option" where
  "datetime y m d =
     (if 1 \<le> y \<and> y \<le> 9999 \<and> 1 \<le> m \<and> m \<le> 12 \<and> 1 \<le> d \<and> d \<le> days_in_month y m
      then Some ((y, m, d), 0, 0, 0, 0) else None)"

definition date_of :: "datetime \<Rightarrow> date" where
  "date_of dt = fst dt"

text \<open>
  Decimal digits: \<^verbatim>\<open>int(s)\<close> on a string of ASCII digits, and the same with the check
  that it is one.
\<close>

definition is_digit :: "char \<Rightarrow> bool" where
  "is_digit c = (let n = (of_char c :: nat) in 48 \<le> n \<and> n \<le> 57)"

definition int_of_digits :: "string \<Rightarrow> nat" where
  "int_of_digits s = foldl (\<lambda>a c. 10 * a + (of_char c - 48)) 0 s"

definition nat_of_digits :: "string \<Rightarrow> nat option" where
  "nat_of_digits s =
     (if s \<noteq> [] \<and> list_all is_digit s then Some (int_of_digits s) else None)"

text \<open>
  \<^verbatim>\<open>datetime.fromisoformat\<close> is a parameter of the engine. Its reading of the strings
  YYYY-MM-DD is the instance used on concrete inputs; the library function accepts
  further formats, and this one gives \<open>None\<close> on them.
\<close>

definition fromisoformat_ymd :: "string \<Rightarrow> datetime option" where
  "fromisoformat_ymd s =
     (if length s = 10 \<and> s ! 4 = CHR ''-'' \<and> s ! 7 = CHR ''-''
      then (case (nat_of_digits (take 4 s), nat_of_digits (take 2 (drop 5 s)),
                  nat_of_digits (drop 8 s)) of
              (Some y, Some m, Some d) \<Rightarrow> datetime y m d
            | _ \<Rightarrow> None)
      else None)"

text \<open>
  A second instance also reads YYYY-MM-DDTHH:MM:SS, the text that \<^verbatim>\<open>isoformat\<close> gives for
  a datetime without microseconds.
\<close>

definition fromisoformat_std :: "string \<Rightarrow> datetime option" where
  "fromisoformat_std s =
     (if length s = 19 \<and> s ! 10 = CHR ''T'' \<and> s ! 13 = CHR '':'' \<and> s ! 16 = CHR '':''
      then (case (fromisoformat_ymd (take 10 s), nat_of_digits (take 2 (drop 11 s)),
                  nat_of_digits (take 2 (drop 14 s)), nat_of_digits (drop 17 s)) of
              (Some (d, _), Some hh, Some mi, Some ss) \<Rightarrow>
                 if hh < 24 \<and> mi < 60 \<and> ss < 60 then Some (d, hh, mi, ss, 0) else None
            | _ \<Rightarrow> None)
      else fromisoformat_ymd s)"

text \<open>\<^verbatim>\<open>datetime.isoformat()\<close>: fixed-width decimal fields.\<close>

fun dec :: "nat \<Rightarrow> nat \<Rightarrow> string" where
  "dec 0 n = []"
| "dec (Suc w) n = dec w (n div 10) @ [''0123456789'' ! (n mod 10)]"

fun isoformat :: "datetime \<Rightarrow> string" where
  "isoformat ((y, m, d), hh, mi, ss, us) =
     dec 4 y @ ''-'' @ dec 2 m @ ''-'' @ dec 2 d @ ''T'' @
     dec 2 hh @ '':'' @ dec 2 mi @ '':'' @ dec 2 ss @
     (if us = 0 then [] else ''.'' @ dec 6 us)"

section \<open>The event record (timeline\_ultra.py, LegalEvent)\<close>

text \<open>
  The date is annotated \<^verbatim>\<open>datetime\<close>, but the engine stores whatever the candidate
  carried: \<open>None\<close> is Python's \<^verbatim>\<open>None\<close> (a descriptor without a date key).
  Scores are Python floats; the model computes with the exact decimal values.
\<close>

record legal_event =
  date :: "datetime option"
  title :: string
  source :: string
  event_type :: string
  description :: string
  score :: real

section \<open>Significance scorer (TimelineUltra.\_score\_event)\<close>

definition reforme :: string where
  "reforme = ''r'' @ [CHR 0xE9] @ ''forme''"

definition score_event :: "string \<Rightarrow> string \<Rightarrow> real" where
  "score_event ttl etype =
     (let score0 = 0;
          title_lower = lower ttl;
          score1 = (if etype = ''loi'' then score0 + 4 / 10
                    else if etype = ''decret'' then score0 + 2 / 10
                    else score0);
          score2 = (if list_ex (\<lambda>w. str_in w title_lower) [reforme, ''codification'']
                    then score1 + 3 / 10 else score1);
          score3 = (if list_ex (\<lambda>w. str_in w title_lower) [''travail'', ''social'', ''emploi'']
                    then score2 + 2 / 10 else score2)
      in min score3 1)"

section \<open>Local persistent store (memory/timeline\_memory.py, TimelineMemory)\<close>

text \<open>
  A stored payload is a JSON object; every entry may be absent from a file written by
  hand. The \<^verbatim>\<open>timestamp\<close> entry (the wall clock at the time of the write, never read
  back) is left out.
\<close>

record payload =
  p_date :: "string option"
  p_title :: "string option"
  p_source :: "string option"
  p_event_type :: "string option"
  p_description :: "string option"
  p_score :: "real option"

text \<open>
  \<open>events_db\<close> is the dictionary in insertion order; \<open>storage_file\<close> is the JSON
  mapping held by the backing file (\<open>None\<close>: no readable file). Writes are taken to
  succeed.
\<close>

record timeline_memory =
  events_db :: "(string \<times> payload) list"
  storage_file :: "(string \<times> payload) list option"

definition load_from_file :: "(string \<times> payload) list option \<Rightarrow> (string \<times> payload) list" where
  "load_from_file file = (case file of None \<Rightarrow> [] | Some data \<Rightarrow> data)"

definition TimelineMemory_init :: "(string \<times> payload) list option \<Rightarrow> timeline_memory" where
  "TimelineMemory_init file = \<lparr>events_db = load_from_file file, storage_file = file\<rparr>"

definition save_to_file :: "timeline_memory \<Rightarrow> timeline_memory" where
  "save_to_file m = m\<lparr>storage_file := Some (events_db m)\<rparr>"

definition date_str :: "legal_event \<Rightarrow> string" where
  "date_str e = (case date e of Some dt \<Rightarrow> isoformat dt | None \<Rightarrow> ''None'')"

text \<open>The digest function is a parameter: \<open>sha256\<close> maps the key text to its hex digest.\<close>

definition hash_event :: "(string \<Rightarrow> string) \<Rightarrow> legal_event \<Rightarrow> string" where
  "hash_event sha256 e = sha256 (date_str e @ ''-'' @ title e)"

definition event_to_dict :: "legal_event \<Rightarrow> payload" where
  "event_to_dict e =
     \<lparr>p_date = Some (date_str e), p_title = Some (title e), p_source = Some (source e),
      p_event_type = Some (event_type e), p_description = Some (description e),
      p_score = Some (score e)\<rparr>"

definition upsert_event :: "(string \<Rightarrow> string) \<Rightarrow> legal_event \<Rightarrow> timeline_memory \<Rightarrow> timeline_memory" where
  "upsert_event sha256 e m =
     (let event_id = hash_event sha256 e in
      if map_of (events_db m) event_id \<noteq> None then m
      else save_to_file (m\<lparr>events_db := events_db m @ [(event_id, event_to_dict e)]\<rparr>))"

definition load_all_events :: "timeline_memory \<Rightarrow> payload list" where
  "load_all_events m = map snd (events_db m)"

definition clear_all :: "timeline_memory \<Rightarrow> timeline_memory" where
  "clear_all m = save_to_file (m\<lparr>events_db := []\<rparr>)"

section \<open>Timeline engine (timeline\_ultra.py, TimelineUltra)\<close>

subsection \<open>Candidates\<close>

text \<open>
  A candidate is an object with \<^verbatim>\<open>date\<close> and \<^verbatim>\<open>title\<close> attributes, a dictionary, or
  anything else. The \<^verbatim>\<open>date\<close> entry of a dictionary is a string, or a value used as it
  is: a datetime, or \<^verbatim>\<open>None\<close> (also what \<^verbatim>\<open>get\<close> gives for an absent key).
\<close>

record event_object =
  o_date :: "datetime option"
  o_title :: string
  o_event_type :: "string option"
  o_description :: "string option"

datatype date_entry = DateStr string | DateObj "datetime option"

record event_dict =
  d_date :: date_entry
  d_title :: "string option"
  d_event_type :: "string option"
  d_description :: "string option"

datatype candidate = Obj event_object | Dict event_dict | Other

definition get_default :: "'a option \<Rightarrow> 'a \<Rightarrow> 'a" where
  "get_default v dflt = (case v of None \<Rightarrow> dflt | Some x \<Rightarrow> x)"

subsection \<open>State\<close>

type_synonym fingerprint_key = "date option \<times> string"

record timeline_ultra =
  events :: "legal_event list"
  fingerprints :: "fingerprint_key set"
  enable_memory :: bool
  conversation_id :: "string option"
  memory :: "timeline_memory option"

definition fingerprint :: "legal_event \<Rightarrow> fingerprint_key" where
  "fingerprint e = (map_option date_of (date e), take 100 (strip (lower (title e))))"

subsection \<open>Construction and load\<close>

text \<open>
  \<open>fromisoformat\<close> is \<^verbatim>\<open>datetime.fromisoformat\<close>, a parameter: \<open>None\<close> where it
  raises \<^verbatim>\<open>ValueError\<close>.
\<close>

definition load_stored :: "(string \<Rightarrow> datetime option) \<Rightarrow> payload \<Rightarrow> timeline_ultra \<Rightarrow> timeline_ultra" where
  "load_stored fromisoformat p s =
     (case p_date p of
        None \<Rightarrow> s
      | Some ds \<Rightarrow>
          if ds = [] then s
          else (case fromisoformat ds of
                  None \<Rightarrow> s
                | Some dt \<Rightarrow>
                    let event = \<lparr>date = Some dt,
                                 title = get_default (p_title p) [],
                                 source = get_default (p_source p) ''unknown'',
                                 event_type = get_default (p_event_type p) ''modification'',
                                 description = get_default (p_description p) [],
                                 score = 0\<rparr>;
                        fp = fingerprint event
                    in if fp \<notin> fingerprints s
                       then s\<lparr>events := events s @ [event],
                              fingerprints := insert fp (fingerprints s)\<rparr>
                       else s))"

fun load_loop :: "(string \<Rightarrow> datetime option) \<Rightarrow> payload list \<Rightarrow> timeline_ultra \<Rightarrow> timeline_ultra" where
  "load_loop fromisoformat [] s = s"
| "load_loop fromisoformat (p # ps) s = load_loop fromisoformat ps (load_stored fromisoformat p s)"

definition load_from_memory :: "(string \<Rightarrow> datetime option) \<Rightarrow> timeline_ultra \<Rightarrow> timeline_ultra" where
  "load_from_memory fromisoformat s =
     (case memory s of
        None \<Rightarrow> s
      | Some m \<Rightarrow> load_loop fromisoformat (load_all_events m) s)"

definition TimelineUltra_init ::
  "(string \<Rightarrow> datetime option) \<Rightarrow> bool \<Rightarrow> string option \<Rightarrow> (string \<times> payload) list option \<Rightarrow> timeline_ultra" where
  "TimelineUltra_init fromisoformat enable conv file =
     (let s = \<lparr>events = [], fingerprints = {}, enable_memory = enable,
               conversation_id = conv, memory = None\<rparr>
      in if enable
         then load_from_memory fromisoformat (s\<lparr>memory := Some (TimelineMemory_init file)\<rparr>)
         else s)"

subsection \<open>Ingestion\<close>

text \<open>
  The conversion of one candidate; \<open>None\<close> is the \<^verbatim>\<open>continue\<close> of the loop (a date
  string that does not parse, or a candidate of an unknown shape).
\<close>

definition legal_event_of_obj :: "event_object \<Rightarrow> legal_event" where
  "legal_event_of_obj ev =
     \<lparr>date = o_date ev,
      title = o_title ev,
      source = ''llm'',
      event_type = get_default (o_event_type ev) ''modification'',
      description = get_default (o_description ev) [],
      score = score_event (o_title ev) (get_default (o_event_type ev) [])\<rparr>"

definition legal_event_of_dict :: "event_dict \<Rightarrow> datetime option \<Rightarrow> legal_event" where
  "legal_event_of_dict ev dt =
     \<lparr>date = dt,
      title = get_default (d_title ev) [],
      source = ''llm'',
      event_type = get_default (d_event_type ev) ''modification'',
      description = get_default (d_description ev) [],
      score = score_event (get_default (d_title ev) []) (get_default (d_event_type ev) [])\<rparr>"

definition convert :: "(string \<Rightarrow> datetime option) \<Rightarrow> candidate \<Rightarrow> legal_event option" where
  "convert fromisoformat c =
     (case c of
        Obj ev \<Rightarrow> Some (legal_event_of_obj ev)
      | Dict ev \<Rightarrow>
          (case d_date ev of
             DateStr ds \<Rightarrow>
               (case fromisoformat ds of
                  None \<Rightarrow> None
                | Some dt \<Rightarrow> Some (legal_event_of_dict ev (Some dt)))
           | DateObj v \<Rightarrow> Some (legal_event_of_dict ev v))
      | Other \<Rightarrow> None)"

text \<open>
  One pass of the loop body on the engine and the list of new events: a known
  fingerprint is skipped, a new one is appended, recorded and persisted.
\<close>

definition ingest_step ::
  "(string \<Rightarrow> datetime option) \<Rightarrow> (string \<Rightarrow> string) \<Rightarrow> candidate \<Rightarrow>
   timeline_ultra \<times> legal_event list \<Rightarrow> timeline_ultra \<times> legal_event list" where
  "ingest_step fromisoformat sha256 c st =
     (case convert fromisoformat c of
        None \<Rightarrow> st
      | Some legal_event \<Rightarrow>
          let s = fst st; new_events = snd st; fp = fingerprint legal_event in
          if fp \<in> fingerprints s then st
          else (s\<lparr>events := events s @ [legal_event],
                  fingerprints := insert fp (fingerprints s),
                  memory := map_option (upsert_event sha256 legal_event) (memory s)\<rparr>,
                new_events @ [legal_event]))"

fun ingest_loop ::
  "(string \<Rightarrow> datetime option) \<Rightarrow> (string \<Rightarrow> string) \<Rightarrow> candidate list \<Rightarrow>
   timeline_ultra \<times> legal_event list \<Rightarrow> timeline_ultra \<times> legal_event list" where
  "ingest_loop fromisoformat sha256 [] st = st"
| "ingest_loop fromisoformat sha256 (c # cs) st =
     ingest_loop fromisoformat sha256 cs (ingest_step fromisoformat sha256 c st)"

text \<open>
  Sorting by the \<^verbatim>\<open>date\<close> key. The sort is stable. It compares nothing on a list of
  at most one event; on a longer list every key takes part in a comparison, and a
  comparison with \<^verbatim>\<open>None\<close> raises \<^verbatim>\<open>TypeError\<close>.
\<close>

datatype error = TypeError | ValueError | KeyError

definition sort_by_date :: "legal_event list \<Rightarrow> error + legal_event list" where
  "sort_by_date xs =
     (if length xs \<le> 1 then Inr xs
      else if list_ex (\<lambda>e. date e = None) xs then Inl TypeError
      else Inr (sort_key date xs))"

text \<open>
  The result is the list of new events and the engine after the call; an exception
  leaves the call without a result, and the engine after it is not modelled.
\<close>

definition ingest_llm_events ::
  "(string \<Rightarrow> datetime option) \<Rightarrow> (string \<Rightarrow> string) \<Rightarrow> candidate list \<Rightarrow>
   timeline_ultra \<Rightarrow> error + (legal_event list \<times> timeline_ultra)" where
  "ingest_llm_events fromisoformat sha256 cands s =
     (let st = ingest_loop fromisoformat sha256 cands (s, []) in
      case sort_by_date (events (fst st)) of
        Inl err \<Rightarrow> Inl err
      | Inr sorted_events \<Rightarrow> Inr (snd st, (fst st)\<lparr>events := sorted_events\<rparr>))"

subsection \<open>Queries and reset\<close>

definition get_events :: "timeline_ultra \<Rightarrow> error + legal_event list" where
  "get_events s = sort_by_date (events s)"




definition clear :: "timeline_ultra \<Rightarrow> timeline_ultra" where
  "clear s = s\<lparr>events := [], fingerprints := {}\<rparr>"

subsection \<open>Sequences of calls\<close>



section \<open>The engine of core/ (core/timeline\_engine.py, core/reform\_detector.py)\<close>

text \<open>
  A second, smaller engine, which the application does not construct. It reads the
  dictionary entries with \<^verbatim>\<open>r["date"]\<close> and \<^verbatim>\<open>r["title"]\<close> and parses the date
  unguarded, so that a call can raise in the middle of a batch; its result is the
  outcome together with the engine as the call leaves it. The \<^verbatim>\<open>metadata\<close> field of
  its event record (always the empty dictionary) is left out.
\<close>

record core_event =
  ce_date :: datetime
  ce_title :: string
  ce_source :: string
  ce_event_type :: string
  ce_text_id :: "string option"
  ce_score :: real

record timeline_engine =
  ce_events :: "core_event list"
  ce_fingerprints :: "(date \<times> string) set"

definition TimelineEngine_init :: timeline_engine where
  "TimelineEngine_init = \<lparr>ce_events = [], ce_fingerprints = {}\<rparr>"

definition fp :: "core_event \<Rightarrow> date \<times> string" where
  "fp e = (date_of (ce_date e), strip (lower (ce_title e)))"

definition guess_type :: "string \<Rightarrow> string" where
  "guess_type ttl =
     (let t = lower ttl in
      if str_in ''loi'' t then ''loi''
      else if str_in (''d'' @ [CHR 0xE9] @ ''cret'') t then ''decret''
      else if str_in (''arr'' @ [CHR 0xEA] @ ''t'' @ [CHR 0xE9]) t then ''arrete''
      else ''texte'')"

definition detector_score_event :: "core_event \<Rightarrow> real" where
  "detector_score_event event =
     (let score0 = 0;
          score1 = (if ce_event_type event = ''loi'' then score0 + 4 / 10 else score0);
          score2 = (if str_in ''codification'' (lower (ce_title event))
                    then score1 + 5 / 10 else score1);
          score3 = (if str_in reforme (lower (ce_title event))
                    then score2 + 3 / 10 else score2)
      in min score3 1)"

text \<open>
  The construction of the event of one raw dictionary: \<^verbatim>\<open>KeyError\<close> for an absent
  entry, \<^verbatim>\<open>TypeError\<close> for a date that is no string, \<^verbatim>\<open>ValueError\<close> for a string
  that does not parse.
\<close>

definition core_event_of :: "(string \<Rightarrow> datetime option) \<Rightarrow> event_dict \<Rightarrow> error + core_event" where
  "core_event_of fromisoformat r =
     (case d_date r of
        DateObj None \<Rightarrow> Inl KeyError
      | DateObj (Some v) \<Rightarrow> Inl TypeError
      | DateStr ds \<Rightarrow>
          (case fromisoformat ds of
             None \<Rightarrow> Inl ValueError
           | Some dt \<Rightarrow>
               (case d_title r of
                  None \<Rightarrow> Inl KeyError
                | Some ttl \<Rightarrow>
                    Inr \<lparr>ce_date = dt, ce_title = ttl, ce_source = ''llm'',
                         ce_event_type = guess_type ttl, ce_text_id = None, ce_score = 0\<rparr>)))"

fun core_loop ::
  "(string \<Rightarrow> datetime option) \<Rightarrow> event_dict list \<Rightarrow> timeline_engine \<times> core_event list \<Rightarrow>
   error option \<times> timeline_engine \<times> core_event list" where
  "core_loop fromisoformat [] st = (None, st)"
| "core_loop fromisoformat (r # rs) (s, new_events) =
     (case core_event_of fromisoformat r of
        Inl err \<Rightarrow> (Some err, s, new_events)
      | Inr event \<Rightarrow>
          if fp event \<in> ce_fingerprints s then core_loop fromisoformat rs (s, new_events)
          else (let scored = event\<lparr>ce_score := detector_score_event event\<rparr>
                in core_loop fromisoformat rs
                     (s\<lparr>ce_fingerprints := insert (fp event) (ce_fingerprints s),
                        ce_events := ce_events s @ [scored]\<rparr>,
                      new_events @ [scored])))"

definition TimelineEngine_ingest_llm_events ::
  "(string \<Rightarrow> datetime option) \<Rightarrow> event_dict list \<Rightarrow> timeline_engine \<Rightarrow>
   (error + core_event list) \<times> timeline_engine" where
  "TimelineEngine_ingest_llm_events fromisoformat raw_events s =
     (case core_loop fromisoformat raw_events (s, []) of
        (Some err, s', new_events) \<Rightarrow> (Inl err, s')
      | (None, s', new_events) \<Rightarrow>
          (Inr new_events, s'\<lparr>ce_events := sort_key ce_date (ce_events s')\<rparr>))"

definition TimelineEngine_get_events :: "timeline_engine \<Rightarrow> core_event list" where
  "TimelineEngine_get_events s = ce_events s"

section \<open>Regular expressions (the fragment of \<^verbatim>\<open>re\<close> that the extractor uses)\<close>

text \<open>
  Patterns are terms; \<open>Sym p\<close> is one character of the class \<open>p\<close>, \<open>Star\<close> the greedy
  and \<open>Lazy\<close> the lazy repetition, \<open>Alt\<close> the ordered alternative, \<open>Bos\<close> the anchor
  \<^verbatim>\<open>^\<close>, \<open>Bol\<close> the same under MULTILINE, \<open>Eol\<close> the anchor \<^verbatim>\<open>$\<close> and \<open>Wordb\<close> the
  boundary \<^verbatim>\<open>\b\<close>.
\<close>

datatype regex =
    Sym "char \<Rightarrow> bool"
  | Eps
  | Cat regex regex
  | Alt regex regex
  | Star regex
  | Lazy regex
  | Group nat regex
  | Bos
  | Bol
  | Eol
  | Wordb

text \<open>
  A matcher state: the position in the text, the character before it, the text from it
  on, and the spans of the groups closed so far (latest first).
\<close>

record mstate =
  pos :: nat
  prev :: "char option"
  rest :: string
  groups :: "(nat \<times> nat \<times> nat) list"

text \<open>\<^verbatim>\<open>\w\<close> on the code points below 256: alphanumeric or underscore.\<close>

definition is_word :: "char \<Rightarrow> bool" where
  "is_word c = (let n = (of_char c :: nat) in
     (48 \<le> n \<and> n \<le> 57) \<or> (65 \<le> n \<and> n \<le> 90) \<or> n = 95 \<or> (97 \<le> n \<and> n \<le> 122) \<or>
     n = 170 \<or> n = 178 \<or> n = 179 \<or> n = 181 \<or> n = 185 \<or> n = 186 \<or>
     (188 \<le> n \<and> n \<le> 190) \<or> (192 \<le> n \<and> n \<le> 214) \<or> (216 \<le> n \<and> n \<le> 246) \<or>
     248 \<le> n)"

definition at_word_boundary :: "mstate \<Rightarrow> bool" where
  "at_word_boundary st =
     ((case prev st of None \<Rightarrow> False | Some c \<Rightarrow> is_word c) \<noteq>
      (case rest st of [] \<Rightarrow> False | c # cs \<Rightarrow> is_word c))"

text \<open>
  Backtracking with continuations: \<open>run r k st\<close> is the first way, in the order of
  Python's matcher, to match \<open>r\<close> from \<open>st\<close> and then succeed with \<open>k\<close>. A repetition
  takes its body at most once per remaining character (each round must advance).
\<close>

type_synonym cont = "mstate \<Rightarrow> mstate option"

fun star :: "nat \<Rightarrow> (cont \<Rightarrow> cont) \<Rightarrow> cont \<Rightarrow> cont" where
  "star 0 body k st = k st"
| "star (Suc n) body k st =
     (case body (\<lambda>st'. if pos st < pos st' then star n body k st' else None) st of
        Some r \<Rightarrow> Some r
      | None \<Rightarrow> k st)"

fun lazy :: "nat \<Rightarrow> (cont \<Rightarrow> cont) \<Rightarrow> cont \<Rightarrow> cont" where
  "lazy 0 body k st = k st"
| "lazy (Suc n) body k st =
     (case k st of
        Some r \<Rightarrow> Some r
      | None \<Rightarrow> body (\<lambda>st'. if pos st < pos st' then lazy n body k st' else None) st)"

primrec run :: "regex \<Rightarrow> cont \<Rightarrow> cont" where
  "run (Sym p) k st =
     (case rest st of
        [] \<Rightarrow> None
      | c # cs \<Rightarrow> if p c then k (st\<lparr>pos := Suc (pos st), prev := Some c, rest := cs\<rparr>) else None)"
| "run Eps k st = k st"
| "run (Cat a b) k st = run a (run b k) st"
| "run (Alt a b) k st = (case run a k st of Some r \<Rightarrow> Some r | None \<Rightarrow> run b k st)"
| "run (Star a) k st = star (length (rest st)) (run a) k st"
| "run (Lazy a) k st = lazy (length (rest st)) (run a) k st"
| "run (Group i a) k st =
     run a (\<lambda>st'. k (st'\<lparr>groups := (i, pos st, pos st') # groups st'\<rparr>)) st"
| "run Bos k st = (if pos st = 0 then k st else None)"
| "run Bol k st = (if prev st = None \<or> prev st = Some (CHR 0x0A) then k st else None)"
| "run Eol k st = (if rest st = [] \<or> rest st = [CHR 0x0A] then k st else None)"
| "run Wordb k st = (if at_word_boundary st then k st else None)"

text \<open>
  \<^verbatim>\<open>re.match\<close> at a position, \<^verbatim>\<open>re.search\<close> (leftmost start) and \<^verbatim>\<open>re.finditer\<close>
  (successive matches, each search resuming where the last match ended). A match is the
  pair of its start and its final state.
\<close>

definition state_at :: "string \<Rightarrow> nat \<Rightarrow> mstate" where
  "state_at text i =
     \<lparr>pos = i, prev = (if i = 0 then None else Some (text ! (i - 1))),
      rest = drop i text, groups = []\<rparr>"

definition match_at :: "regex \<Rightarrow> string \<Rightarrow> nat \<Rightarrow> mstate option" where
  "match_at r text i = run r Some (state_at text i)"

fun scan :: "regex \<Rightarrow> string \<Rightarrow> nat \<Rightarrow> nat \<Rightarrow> (nat \<times> mstate) option" where
  "scan r text i 0 = map_option (Pair i) (match_at r text i)"
| "scan r text i (Suc n) =
     (case match_at r text i of
        Some st \<Rightarrow> Some (i, st)
      | None \<Rightarrow> scan r text (Suc i) n)"

definition search_from :: "regex \<Rightarrow> string \<Rightarrow> nat \<Rightarrow> (nat \<times> mstate) option" where
  "search_from r text i = (if i \<le> length text then scan r text i (length text - i) else None)"

definition re_search :: "regex \<Rightarrow> string \<Rightarrow> (nat \<times> mstate) option" where
  "re_search r text = search_from r text 0"

function finditer_from :: "regex \<Rightarrow> string \<Rightarrow> nat \<Rightarrow> (nat \<times> mstate) list" where
  "finditer_from r text i =
     (case search_from r text i of
        None \<Rightarrow> []
      | Some (a, st) \<Rightarrow>
          if length text < i then [] else (a, st) # finditer_from r text (max (pos st) (Suc i)))"
  by pat_completeness auto
termination
  by (relation "measure (\<lambda>(r, text, i). Suc (length text) - i)") auto

declare finditer_from.simps [simp del]

definition finditer :: "regex \<Rightarrow> string \<Rightarrow> (nat \<times> mstate) list" where
  "finditer r text = finditer_from r text 0"

text \<open>The slice \<^verbatim>\<open>text[a:b]\<close>, the text of a group, and \<^verbatim>\<open>m.group(0)\<close>.\<close>

definition slice :: "string \<Rightarrow> nat \<Rightarrow> nat \<Rightarrow> string" where
  "slice text a b = take (b - a) (drop a text)"

definition group_text :: "string \<Rightarrow> mstate \<Rightarrow> nat \<Rightarrow> string" where
  "group_text text st i =
     (case map_of (groups st) i of None \<Rightarrow> [] | Some (a, b) \<Rightarrow> slice text a b)"

definition whole :: "string \<Rightarrow> nat \<times> mstate \<Rightarrow> string" where
  "whole text m = slice text (fst m) (pos (snd m))"

text \<open>
  Literals (also under IGNORECASE), sequences, \<^verbatim>\<open>+\<close>, the classes \<^verbatim>\<open>\d\<close>, \<^verbatim>\<open>\s\<close>,
  \<^verbatim>\<open>\w\<close>, the dot under DOTALL and a negated one-character class, \<^verbatim>\<open>\d{4}\<close> and
  \<^verbatim>\<open>\d{1,2}\<close>.
\<close>

fun re_lit :: "string \<Rightarrow> regex" where
  "re_lit [] = Eps"
| "re_lit (c # cs) = Cat (Sym (\<lambda>x. x = c)) (re_lit cs)"

fun re_lit_ignorecase :: "string \<Rightarrow> regex" where
  "re_lit_ignorecase [] = Eps"
| "re_lit_ignorecase (c # cs) =
     Cat (Sym (\<lambda>x. py_lower_char x = py_lower_char c)) (re_lit_ignorecase cs)"

fun re_seq :: "regex list \<Rightarrow> regex" where
  "re_seq [] = Eps"
| "re_seq (r # rs) = Cat r (re_seq rs)"

definition re_plus :: "regex \<Rightarrow> regex" where
  "re_plus r = Cat r (Star r)"

definition re_digit :: regex where
  "re_digit = Sym is_digit"

definition re_space :: regex where
  "re_space = Sym py_isspace"

definition re_word :: regex where
  "re_word = Sym is_word"

definition re_any :: regex where
  "re_any = Sym (\<lambda>c. True)"

definition re_not :: "char \<Rightarrow> regex" where
  "re_not x = Sym (\<lambda>c. c \<noteq> x)"

definition re_digits4 :: regex where
  "re_digits4 = re_seq [re_digit, re_digit, re_digit, re_digit]"

definition re_digits12 :: regex where
  "re_digits12 = Cat re_digit (Alt re_digit Eps)"

text \<open>
  The pattern \<^verbatim>\<open>\b(19|20)\d{2}\b\<close>. \<^verbatim>\<open>re.findall\<close> on a pattern with one group returns
  the texts of that group.
\<close>

definition year_pattern :: regex where
  "year_pattern =
     re_seq [Wordb, Group 1 (Alt (re_lit ''19'') (re_lit ''20'')), re_digit, re_digit, Wordb]"

definition findall_group1 :: "regex \<Rightarrow> string \<Rightarrow> string list" where
  "findall_group1 r text = map (\<lambda>(a, st). group_text text st 1) (finditer r text)"

section \<open>French dates (timeline\_header.py, \_parse\_date\_french)\<close>

definition mois_fr :: "(string \<times> nat) list" where
  "mois_fr =
     [(''janvier'', 1), (''f'' @ [CHR 0xE9] @ ''vrier'', 2), (''mars'', 3), (''avril'', 4),
      (''mai'', 5), (''juin'', 6), (''juillet'', 7), (''ao'' @ [CHR 0xFB] @ ''t'', 8),
      (''septembre'', 9), (''octobre'', 10), (''novembre'', 11),
      (''d'' @ [CHR 0xE9] @ ''cembre'', 12),
      (''janv'', 1), (''f'' @ [CHR 0xE9] @ ''vr'', 2), (''avr'', 4), (''juill'', 7),
      (''sept'', 9), (''oct'', 10), (''nov'', 11), (''d'' @ [CHR 0xE9] @ ''c'', 12),
      (''fev'', 2), (''aout'', 8), (''dec'', 12)]"

text \<open>
  The patterns \<^verbatim>\<open>^\d{4}$\<close>, \<^verbatim>\<open>(\d{1,2})\s+(\w+)\s+(\d{4})\<close> and
  \<^verbatim>\<open>(\d{1,2})[/-](\d{1,2})[/-](\d{4})\<close>.
\<close>

definition year_only_pattern :: regex where
  "year_only_pattern = re_seq [Bos, re_digits4, Eol]"

definition day_month_year_pattern :: regex where
  "day_month_year_pattern =
     re_seq [Group 1 re_digits12, re_plus re_space, Group 2 (re_plus re_word),
             re_plus re_space, Group 3 re_digits4]"

definition numeric_date_pattern :: regex where
  "numeric_date_pattern =
     re_seq [Group 1 re_digits12, Sym (\<lambda>c. c = CHR ''/'' \<or> c = CHR ''-''),
             Group 2 re_digits12, Sym (\<lambda>c. c = CHR ''/'' \<or> c = CHR ''-''),
             Group 3 re_digits4]"

text \<open>
  The four attempts in turn; an attempt gives \<open>None\<close> when its pattern does not match,
  the month is unknown, or the constructor raises \<^verbatim>\<open>ValueError\<close>.
\<close>

definition orelse :: "'a option \<Rightarrow> 'a option \<Rightarrow> 'a option" where
  "orelse a b = (case a of Some x \<Rightarrow> Some x | None \<Rightarrow> b)"

definition parse_year_only :: "string \<Rightarrow> datetime option" where
  "parse_year_only s =
     (case match_at year_only_pattern s 0 of
        None \<Rightarrow> None
      | Some st \<Rightarrow> datetime (int_of_digits s) 1 1)"

definition parse_day_month_year :: "string \<Rightarrow> datetime option" where
  "parse_day_month_year s =
     (let low = lower s in
      case re_search day_month_year_pattern low of
        None \<Rightarrow> None
      | Some (a, st) \<Rightarrow>
          (case map_of mois_fr (group_text low st 2) of
             None \<Rightarrow> None
           | Some month \<Rightarrow>
               datetime (int_of_digits (group_text low st 3)) month
                 (int_of_digits (group_text low st 1))))"

definition parse_numeric_date :: "string \<Rightarrow> datetime option" where
  "parse_numeric_date s =
     (case re_search numeric_date_pattern s of
        None \<Rightarrow> None
      | Some (a, st) \<Rightarrow>
          datetime (int_of_digits (group_text s st 3)) (int_of_digits (group_text s st 2))
            (int_of_digits (group_text s st 1)))"

definition parse_year_inside :: "string \<Rightarrow> datetime option" where
  "parse_year_inside s =
     (case re_search year_pattern s of
        None \<Rightarrow> None
      | Some m \<Rightarrow> datetime (int_of_digits (whole s m)) 1 1)"

definition parse_date_french :: "string option \<Rightarrow> datetime option" where
  "parse_date_french txt =
     (case txt of
        None \<Rightarrow> None
      | Some raw \<Rightarrow>
          if raw = [] then None
          else (let s = strip raw in
                orelse (parse_year_only s)
                  (orelse (parse_day_month_year s)
                     (orelse (parse_numeric_date s) (parse_year_inside s)))))"

section \<open>Free-text extraction (timeline\_header.py, extract\_events\_from\_last\_response)\<close>

text \<open>
  The extractor's event (TimelineEvent) and a chat message; a message without content
  has the empty content.
\<close>

record timeline_event =
  te_date :: datetime
  te_title :: string
  te_event_type :: string
  te_description :: string
  te_details :: string

record message =
  role :: string
  content :: string

text \<open>
  \<^verbatim>\<open>json.loads\<close> is a parameter: \<open>None\<close> where it raises, else the items of the array.
  An item is an object, read through \<^verbatim>\<open>get\<close>, or something else, on which \<^verbatim>\<open>get\<close>
  raises. The \<open>j_date\<close> entry is the text of a truthy value, \<open>None\<close> otherwise.
\<close>

record json_object =
  j_date :: "string option"
  j_title :: "string option"
  j_type :: "string option"
  j_description :: "string option"
  j_details :: "string option"

datatype json_item = JObject json_object | JOther

text \<open>
  The patterns of the strategies: the JSON block (DOTALL), a markdown row (MULTILINE),
  a row of an HTML table (DOTALL, IGNORECASE), a tag, and a full date.
\<close>

definition json_pattern :: regex where
  "json_pattern =
     re_seq [re_lit ''['', Star re_space, re_lit ''{'', Lazy re_any, re_lit ''}'', Star re_space,
             re_lit '']'']"

definition md_pattern :: regex where
  "md_pattern =
     re_seq [Bol, Star re_space, Group 1 re_digits4, Star re_space, re_lit ''|'', Star re_space,
             Group 2 (re_plus (re_not (CHR ''|''))), re_lit ''|'', Star re_space,
             Group 3 (re_plus (re_not (CHR 0x0A)))]"

definition html_pattern :: regex where
  "html_pattern =
     re_seq [re_lit_ignorecase ''<td'', Star (re_not (CHR ''>'')), re_lit ''>'', Star re_space,
             Group 1 re_digits4, Star re_space, re_lit_ignorecase ''</td>'', Star re_space,
             re_lit_ignorecase ''<td'', Star (re_not (CHR ''>'')), re_lit ''>'',
             Group 2 (Lazy re_any), re_lit_ignorecase ''</td>'', Star re_space,
             re_lit_ignorecase ''<td'', Star (re_not (CHR ''>'')), re_lit ''>'',
             Group 3 (Lazy re_any), re_lit_ignorecase ''</td>'']"

definition tag_pattern :: regex where
  "tag_pattern =
     re_seq [re_lit ''<'', re_not (CHR ''<''), Lazy (re_not (CHR ''<'')), re_lit ''>'']"

definition full_date_pattern :: regex where
  "full_date_pattern =
     Group 1 (re_seq [re_digits12, re_plus re_space, re_plus re_word, re_plus re_space,
                      re_digits4])"

text \<open>\<^verbatim>\<open>re.sub(pattern, '', text)\<close>: the text without the characters of the matches.\<close>

definition re_remove :: "regex \<Rightarrow> string \<Rightarrow> string" where
  "re_remove r text =
     (let ms = finditer r text in
      map snd (filter (\<lambda>(i, c). \<not> list_ex (\<lambda>(a, st). a \<le> i \<and> i < pos st) ms)
                 (enumerate 0 text)))"

text \<open>
  The loop over the JSON items: the events built so far, and whether the loop ran to
  its end (it stops where an item raises).
\<close>

fun json_loop :: "json_item list \<Rightarrow> timeline_event list \<Rightarrow> timeline_event list \<times> bool" where
  "json_loop [] evs = (evs, True)"
| "json_loop (JOther # items) evs = (evs, False)"
| "json_loop (JObject item # items) evs =
     (case parse_date_french (j_date item) of
        None \<Rightarrow> json_loop items evs
      | Some d \<Rightarrow>
          json_loop items
            (evs @ [\<lparr>te_date = d,
                     te_title = get_default (j_title item)
                                  ([CHR 0xC9] @ ''v'' @ [CHR 0xE9] @ ''nement''),
                     te_event_type = get_default (j_type item) ''modification'',
                     te_description = get_default (j_description item) [],
                     te_details = get_default (j_details item) []\<rparr>]))"

text \<open>The event, if any, of one match of each later strategy.\<close>

definition md_event :: "string \<Rightarrow> nat \<times> mstate \<Rightarrow> timeline_event list" where
  "md_event text m =
     (case parse_date_french (Some (group_text text (snd m) 1)) of
        None \<Rightarrow> []
      | Some d \<Rightarrow>
          [\<lparr>te_date = d, te_title = take 60 (strip (group_text text (snd m) 2)),
            te_event_type = ''modification'',
            te_description = take 120 (strip (group_text text (snd m) 3)), te_details = []\<rparr>])"

definition html_event :: "string \<Rightarrow> nat \<times> mstate \<Rightarrow> timeline_event list" where
  "html_event text m =
     (case parse_date_french (Some (group_text text (snd m) 1)) of
        None \<Rightarrow> []
      | Some d \<Rightarrow>
          (let ttl = strip (re_remove tag_pattern (group_text text (snd m) 2));
               desc = strip (re_remove tag_pattern (group_text text (snd m) 3))
           in [\<lparr>te_date = d, te_title = take 60 ttl, te_event_type = ''modification'',
                 te_description = take 120 desc, te_details = []\<rparr>]))"

definition full_date_event :: "string \<Rightarrow> nat \<times> mstate \<Rightarrow> timeline_event list" where
  "full_date_event text m =
     (case parse_date_french (Some (group_text text (snd m) 1)) of
        None \<Rightarrow> []
      | Some d \<Rightarrow>
          (let snippet_start = fst m - 40;
               snippet_end = min (length text) (pos (snd m) + 80);
               snippet = map (\<lambda>c. if c = CHR 0x0A then CHR '' '' else c)
                           (slice text snippet_start snippet_end)
           in [\<lparr>te_date = d, te_title = ''Texte juridique'', te_event_type = ''publication'',
                 te_description = take 120 snippet, te_details = []\<rparr>]))"

definition year_event :: "string \<Rightarrow> timeline_event list" where
  "year_event year =
     (case parse_date_french (Some year) of
        None \<Rightarrow> []
      | Some d \<Rightarrow>
          [\<lparr>te_date = d, te_title = ''Ann'' @ [CHR 0xE9] @ ''e '' @ year,
            te_event_type = ''modification'',
            te_description = [CHR 0xC9] @ ''v'' @ [CHR 0xE9] @ ''nement d'' @ [CHR 0xE9] @
                             ''tect'' @ [CHR 0xE9] @ '' automatiquement'',
            te_details = []\<rparr>])"

text \<open>Deduplication by calendar day: the first event of a day is kept.\<close>

fun unique_days :: "timeline_event list \<Rightarrow> date list \<Rightarrow> timeline_event list" where
  "unique_days [] seen = []"
| "unique_days (e # es) seen =
     (if date_of (te_date e) \<in> set seen then unique_days es seen
      else e # unique_days es (date_of (te_date e) # seen))"

text \<open>
  The strategies after the JSON one, on the events already collected. The years are
  visited in the order of a Python set, which is unspecified; the list of the distinct
  years stands for it.
\<close>

definition heuristic_events :: "string \<Rightarrow> timeline_event list \<Rightarrow> timeline_event list" where
  "heuristic_events text events0 =
     (let events1 = events0 @ concat (map (md_event text) (finditer md_pattern text));
          events2 = events1 @ concat (map (html_event text) (finditer html_pattern text));
          events3 = events2 @
                    concat (map (full_date_event text) (finditer full_date_pattern text));
          years = findall_group1 year_pattern text;
          events4 = events3 @ concat (map year_event (remdups years));
          final_events = unique_days events4 []
      in sort_key te_date final_events)"

definition last_assistant_message :: "message list \<Rightarrow> string option" where
  "last_assistant_message messages =
     (case filter (\<lambda>msg. role msg = ''assistant'') (rev messages) of
        [] \<Rightarrow> None
      | msg # _ \<Rightarrow> Some (content msg))"

definition extract_events_from_last_response ::
  "(string \<Rightarrow> json_item list option) \<Rightarrow> message list \<Rightarrow> timeline_event list" where
  "extract_events_from_last_response json_loads messages =
     (case last_assistant_message messages of
        None \<Rightarrow> []
      | Some text \<Rightarrow>
          if text = [] then []
          else (case re_search json_pattern text of
                  None \<Rightarrow> heuristic_events text []
                | Some m \<Rightarrow>
                    (case json_loads (whole text m) of
                       None \<Rightarrow> heuristic_events text []
                     | Some data \<Rightarrow>
                         (case json_loop data [] of
                            (evs, True) \<Rightarrow> sort_key te_date evs
                          | (evs, False) \<Rightarrow> heuristic_events text evs))))"

section \<open>Concrete inputs\<close>

text \<open>
  An engine built without a store and one built on an empty store, a descriptor in the
  shape the extraction step produces, and the event the engine makes of it.
\<close>

definition engine_plain :: timeline_ultra where
  "engine_plain = TimelineUltra_init fromisoformat_ymd False None None"

definition engine_stored :: timeline_ultra where
  "engine_stored = TimelineUltra_init fromisoformat_ymd True (Some ''c1'') None"

definition loi_travail_dict :: event_dict where
  "loi_travail_dict =
     \<lparr>d_date = DateStr ''2016-08-08'',
      d_title = Some ''Loi 2016-1088 relative au travail'',
      d_event_type = Some ''loi'', d_description = None\<rparr>"

definition loi_travail :: candidate where
  "loi_travail = Dict loi_travail_dict"

definition loi_travail_event :: legal_event where
  "loi_travail_event =
     \<lparr>date = Some ((2016, 8, 8), 0, 0, 0, 0),
      title = ''Loi 2016-1088 relative au travail'',
      source = ''llm'', event_type = ''loi'', description = [], score = 6 / 10\<rparr>"

text \<open>Two descriptors of one day whose titles differ at the 101st character only.\<close>

definition long_title :: "char \<Rightarrow> string" where
  "long_title c = replicate 100 (CHR ''a'') @ [c]"

definition long_dict :: "char \<Rightarrow> event_dict" where
  "long_dict c =
     \<lparr>d_date = DateStr ''2020-01-01'', d_title = Some (long_title c),
      d_event_type = None, d_description = None\<rparr>"

definition long_candidate :: "char \<Rightarrow> candidate" where
  "long_candidate c = Dict (long_dict c)"

definition long_event :: "char \<Rightarrow> legal_event" where
  "long_event c =
     \<lparr>date = Some ((2020, 1, 1), 0, 0, 0, 0), title = long_title c,
      source = ''llm'', event_type = ''modification'', description = [], score = 0\<rparr>"

text \<open>A descriptor without a title entry, and the event the engine makes of it.\<close>

definition untitled_dict :: event_dict where
  "untitled_dict =
     \<lparr>d_date = DateStr ''2020-01-01'', d_title = None,
      d_event_type = None, d_description = None\<rparr>"

definition untitled :: candidate where
  "untitled = Dict untitled_dict"

definition untitled_event :: legal_event where
  "untitled_event =
     \<lparr>date = Some ((2020, 1, 1), 0, 0, 0, 0), title = [],
      source = ''llm'', event_type = ''modification'', description = [], score = 0\<rparr>"

text \<open>A descriptor whose date string is no date.\<close>

definition undated :: event_dict where
  "undated =
     \<lparr>d_date = DateStr ''hier'', d_title = Some ''Texte sans date'',
      d_event_type = None, d_description = None\<rparr>"



text \<open>
  One turn on an engine with an empty store, and the backing file as that turn leaves
  it: what a later construction of the engine reads.
\<close>

definition first_turn :: "error + (legal_event list \<times> timeline_ultra)" where
  "first_turn =
     ingest_llm_events fromisoformat_std id [loi_travail]
       (TimelineUltra_init fromisoformat_std True None None)"

definition file_after_first_turn :: "(string \<times> payload) list option" where
  "file_after_first_turn =
     (case first_turn of
        Inl err \<Rightarrow> None
      | Inr (new_events, s) \<Rightarrow>
          (case memory s of None \<Rightarrow> None | Some m \<Rightarrow> storage_file m))"

section \<open>Properties\<close>

subsection \<open>Sorting by date\<close>

lemma sort_by_date_sorted:
  "sort_by_date xs = Inr ys \<Longrightarrow> sorted (map date ys) \<and> mset ys = mset xs"
proof -
  assume a: "sort_by_date xs = Inr ys"
  show ?thesis
  proof (cases "length xs \<le> 1")
    case True
    then have "ys = xs" using a by (simp add: sort_by_date_def)
    moreover have "sorted (map date xs)" using True by (cases xs; cases "tl xs") auto
    ultimately show ?thesis by simp
  next
    case False
    then have "ys = sort_key date xs" using a by (simp add: sort_by_date_def split: if_splits)
    then show ?thesis by simp
  qed
qed

lemma sort_by_date_idem:
  assumes "sort_by_date xs = Inr ys" shows "sort_by_date ys = Inr ys"
proof -
  have s: "sorted (map date ys)" and m: "mset ys = mset xs"
    using sort_by_date_sorted[OF assms] by auto
  have len: "length ys = length xs" using m by (metis size_mset)
  have set: "set ys = set xs" using m by (metis set_mset_mset)
  show ?thesis
  proof (cases "length xs \<le> 1")
    case True
    then show ?thesis using len by (simp add: sort_by_date_def)
  next
    case False
    then have "\<not> list_ex (\<lambda>e. date e = None) xs"
      using assms by (auto simp: sort_by_date_def split: if_splits)
    then have "\<not> list_ex (\<lambda>e. date e = None) ys" using set by (simp add: list_ex_iff)
    then show ?thesis using False len s by (simp add: sort_by_date_def sort_key_id_if_sorted)
  qed
qed



subsection \<open>The ingestion loop\<close>


lemma ingest_loop_append:
  "ingest_loop F H (xs @ ys) st = ingest_loop F H ys (ingest_loop F H xs st)"
  by (induction xs arbitrary: st) auto


lemma ingest_step_events:
  "events (fst (ingest_step F H c (s, new))) = events s @ snd (ingest_step F H c (s, []))"
  "snd (ingest_step F H c (s, new)) = new @ snd (ingest_step F H c (s, []))"
  "fst (ingest_step F H c (s, new)) = fst (ingest_step F H c (s, []))"
  by (auto simp: ingest_step_def Let_def split: option.splits)

lemma ingest_loop_fst:
  "fst (ingest_loop F H cs (s, new)) = fst (ingest_loop F H cs (s, []))"
proof (induction cs arbitrary: s new)
  case Nil show ?case by simp
next
  case (Cons c cs)
  obtain s1 n1 where st: "ingest_step F H c (s, []) = (s1, n1)" by (cases "ingest_step F H c (s, [])")
  have "ingest_step F H c (s, new) = (s1, new @ n1)"
    using ingest_step_events(2,3)[of F H c s new] st by (simp add: prod_eq_iff)
  then show ?case using st Cons.IH[of s1 "new @ n1"] Cons.IH[of s1 n1] by simp
qed

lemma ingest_loop_snd:
  "snd (ingest_loop F H cs (s, new)) = new @ snd (ingest_loop F H cs (s, []))"
proof (induction cs arbitrary: s new)
  case Nil show ?case by simp
next
  case (Cons c cs)
  obtain s1 n1 where st: "ingest_step F H c (s, []) = (s1, n1)" by (cases "ingest_step F H c (s, [])")
  have "ingest_step F H c (s, new) = (s1, new @ n1)"
    using ingest_step_events(2,3)[of F H c s new] st by (simp add: prod_eq_iff)
  then show ?case using st Cons.IH[of s1 "new @ n1"] Cons.IH[of s1 n1] by simp
qed

lemma ingest_loop_events:
  "events (fst (ingest_loop F H cs (s, []))) = events s @ snd (ingest_loop F H cs (s, []))"
proof (induction cs arbitrary: s)
  case Nil show ?case by simp
next
  case (Cons c cs)
  obtain s1 n1 where st: "ingest_step F H c (s, []) = (s1, n1)" by (cases "ingest_step F H c (s, [])")
  have e1: "events s1 = events s @ n1" using ingest_step_events(1)[of F H c s "[]"] st by simp
  have "fst (ingest_loop F H cs (s1, n1)) = fst (ingest_loop F H cs (s1, []))" by (rule ingest_loop_fst)
  moreover have "snd (ingest_loop F H cs (s1, n1)) = n1 @ snd (ingest_loop F H cs (s1, []))" by (rule ingest_loop_snd)
  ultimately show ?case using st Cons.IH[of s1] e1 by simp
qed

lemma ingest_step_new:
  "convert F c = Some e \<Longrightarrow> fingerprint e \<notin> fingerprints s \<Longrightarrow>
   ingest_step F H c (s, new) =
     (s\<lparr>events := events s @ [e], fingerprints := insert (fingerprint e) (fingerprints s),
        memory := map_option (upsert_event H e) (memory s)\<rparr>, new @ [e])"
  by (simp add: ingest_step_def Let_def)

lemma ingest_step_known:
  "convert F c = Some e \<Longrightarrow> fingerprint e \<in> fingerprints s \<Longrightarrow> ingest_step F H c (s, new) = (s, new)"
  by (simp add: ingest_step_def Let_def)

lemma ingest_step_fingerprints:
  "fingerprints (fst (ingest_step F H c st)) =
     fingerprints (fst st) \<union> (case convert F c of None \<Rightarrow> {} | Some e \<Rightarrow> {fingerprint e})"
  by (auto simp: ingest_step_def Let_def split: option.splits)

lemma ingest_loop_fingerprints:
  "fingerprints (fst (ingest_loop F H cs st)) =
     fingerprints (fst st) \<union> {fingerprint e |e c. c \<in> set cs \<and> convert F c = Some e}"
proof (induction cs arbitrary: st)
  case Nil show ?case by simp
next
  case (Cons c cs)
  show ?case
    unfolding ingest_loop.simps Cons.IH ingest_step_fingerprints
    by (auto split: option.splits)
qed





subsection \<open>One call, and runs of calls\<close>

lemma reingest_known:
  assumes "convert F c = Some e" "fingerprint e \<in> fingerprints s"
    "sort_by_date (events s) = Inr (events s)"
  shows "ingest_llm_events F H [c] s = Inr ([], s)"
  using assms by (simp add: ingest_llm_events_def ingest_step_known)

lemma ingest_result_stable:
  assumes "ingest_llm_events F H cs s = Inr (new, s1)"
  shows "sort_by_date (events s1) = Inr (events s1)"
proof -
  obtain ys where ys: "sort_by_date (events (fst (ingest_loop F H cs (s, [])))) = Inr ys"
    and s1: "s1 = (fst (ingest_loop F H cs (s, [])))\<lparr>events := ys\<rparr>"
    using assms by (auto simp: ingest_llm_events_def Let_def split: sum.splits)
  show ?thesis using sort_by_date_idem[OF ys] s1 by simp
qed

lemma ingest_result_fingerprints:
  assumes "ingest_llm_events F H cs s = Inr (new, s1)"
  shows "fingerprints s1 = fingerprints s \<union> {fingerprint e |e c. c \<in> set cs \<and> convert F c = Some e}"
proof -
  have "fingerprints s1 = fingerprints (fst (ingest_loop F H cs (s, [])))"
    using assms by (auto simp: ingest_llm_events_def Let_def split: sum.splits)
  then show ?thesis by (simp add: ingest_loop_fingerprints)
qed

lemma ingest_first:
  assumes "convert F c = Some e" and "events s = []" and "fingerprints s = {}"
  shows "ingest_llm_events F H [c] s =
           Inr ([e], s\<lparr>events := [e], fingerprints := {fingerprint e},
                        memory := map_option (upsert_event H e) (memory s)\<rparr>)"
  using assms by (simp add: ingest_llm_events_def ingest_step_new sort_by_date_def)




subsection \<open>Construction and load\<close>

lemma load_stored_inv:
  assumes "\<forall>e\<in>set (events s). date e \<noteq> None \<and> score e = 0"
  shows "\<forall>e\<in>set (events (load_stored F p s)). date e \<noteq> None \<and> score e = 0"
  using assms by (auto simp: load_stored_def Let_def split: option.splits)

lemma load_loop_inv:
  assumes "\<forall>e\<in>set (events s). date e \<noteq> None \<and> score e = 0"
  shows "\<forall>e\<in>set (events (load_loop F ps s)). date e \<noteq> None \<and> score e = 0"
  using assms
proof (induction ps arbitrary: s)
  case Nil then show ?case by simp
next
  case (Cons p ps)
  show ?case using Cons.IH[OF load_stored_inv[OF Cons.prems]] by simp
qed

lemma init_inv:
  "\<forall>e\<in>set (events (TimelineUltra_init F enable conv disk)). date e \<noteq> None \<and> score e = 0"
proof (cases enable)
  case False then show ?thesis by (simp add: TimelineUltra_init_def)
next
  case True
  have "\<forall>e\<in>set (events (load_loop F ps
      \<lparr>events = [], fingerprints = {}, enable_memory = True, conversation_id = conv,
       memory = Some m\<rparr>)). date e \<noteq> None \<and> score e = 0" for ps m
    by (rule load_loop_inv) simp
  then show ?thesis using True by (simp add: TimelineUltra_init_def load_from_memory_def)
qed

lemma load_stored_score_irrelevant: "load_stored F (p\<lparr>p_score := v\<rparr>) s = load_stored F p s"
  by (simp add: load_stored_def Let_def split: option.splits)

subsection \<open>Range filters\<close>





subsection \<open>The bare-year strategy\<close>

lemma scan_match: "scan r doc i n = Some (a, st) \<Longrightarrow> match_at r doc a = Some st"
  by (induction n arbitrary: i) (auto split: option.splits)

lemma finditer_from_match:
  "(a, st) \<in> set (finditer_from r doc i) \<Longrightarrow> match_at r doc a = Some st"
proof (induction r doc i rule: finditer_from.induct)
  case (1 r doc i)
  show ?case
  proof (cases "search_from r doc i")
    case None
    then show ?thesis using "1.prems" by (simp add: finditer_from.simps)
  next
    case (Some m)
    obtain a0 st0 where m: "m = (a0, st0)" by (cases m)
    have le: "\<not> length doc < i" using Some by (auto simp: search_from_def split: if_splits)
    have hd: "match_at r doc a0 = Some st0"
      using Some m by (auto simp: search_from_def split: if_splits dest: scan_match)
    from "1.prems" Some m le
    have "(a, st) = (a0, st0) \<or> (a, st) \<in> set (finditer_from r doc (max (pos st0) (Suc i)))"
      by (subst (asm) finditer_from.simps) simp
    then show ?thesis using hd "1.IH"[OF Some m[symmetric] le] by auto
  qed
qed

lemma year_pattern_group:
  assumes "match_at year_pattern doc i = Some st"
  shows "group_text doc st 1 = ''19'' \<or> group_text doc st 1 = ''20''"
  using assms
  by (auto simp: match_at_def year_pattern_def state_at_def re_digit_def group_text_def slice_def
      split: list.splits if_splits)

lemma years_found:
  assumes "y \<in> set (findall_group1 year_pattern doc)"
  shows "y = ''19'' \<or> y = ''20''"
proof -
  from assms obtain a st where m: "(a, st) \<in> set (finditer_from year_pattern doc 0)"
    and y: "y = group_text doc st 1"
    by (auto simp: findall_group1_def finditer_def)
  show ?thesis using year_pattern_group [OF finditer_from_match [OF m]] y by simp
qed

lemma year_event_19: "year_event ''19'' = []" by code_simp

lemma year_event_20: "year_event ''20'' = []" by code_simp

lemma year_strategy_empty:
  "concat (map year_event (remdups (findall_group1 year_pattern doc))) = []"
  using years_found [where doc = doc] year_event_19 year_event_20 by auto

section \<open>The specified properties\<close>

text \<open>
  C1. Ingestion is idempotent. On an engine that holds no event, ingesting a candidate
  that converts to an event and then, in a second call, a candidate with the same date
  and title: the first call accepts the event, the second call returns no new event and
  leaves the engine as it was, and the engine holds exactly that one event.
\<close>

theorem ingest_idempotent:
  assumes "convert F c = Some e" and "convert F c' = Some e'"
    and "date e' = date e" and "title e' = title e"
    and "events s = []" and "fingerprints s = {}"
  shows "\<exists>s1. ingest_llm_events F H [c] s = Inr ([e], s1) \<and> events s1 = [e] \<and>
              ingest_llm_events F H [c'] s1 = Inr ([], s1) \<and> get_events s1 = Inr [e]"
proof -
  define s1 where "s1 = s\<lparr>events := [e], fingerprints := {fingerprint e},
                          memory := map_option (upsert_event H e) (memory s)\<rparr>"
  have first: "ingest_llm_events F H [c] s = Inr ([e], s1)"
    unfolding s1_def by (rule ingest_first [OF assms(1,5,6)])
  have fp: "fingerprint e' = fingerprint e" using assms(3,4) by (simp add: fingerprint_def)
  have "fingerprint e' \<in> fingerprints s1" using fp by (simp add: s1_def)
  moreover have st: "sort_by_date (events s1) = Inr (events s1)" by (simp add: s1_def sort_by_date_def)
  ultimately have second: "ingest_llm_events F H [c'] s1 = Inr ([], s1)"
    using assms(2) by (rule_tac reingest_known) auto
  have "events s1 = [e]" by (simp add: s1_def)
  then show ?thesis using first second st by (auto simp: get_events_def)
qed

theorem ingest_idempotent_witness:
  "convert fromisoformat_ymd loi_travail = Some loi_travail_event \<and>
   events engine_stored = [] \<and> fingerprints engine_stored = {} \<and>
   (\<exists>s1. ingest_llm_events fromisoformat_ymd id [loi_travail] engine_stored
            = Inr ([loi_travail_event], s1) \<and>
         events s1 = [loi_travail_event] \<and>
         ingest_llm_events fromisoformat_ymd id [loi_travail] s1 = Inr ([], s1) \<and>
         get_events s1 = Inr [loi_travail_event])"
proof -
  have c: "convert fromisoformat_ymd loi_travail = Some loi_travail_event" by code_simp
  have e: "events engine_stored = []" by code_simp
  have f: "fingerprints engine_stored = {}" by code_simp
  show ?thesis
    using ingest_idempotent [OF c c refl refl e f, where H = id] c e f by simp
qed





text \<open>
  C4. Fingerprint truncation. When two candidates convert to events of the same calendar
  date whose titles, lower-cased and stripped, agree on their first 100 characters, the
  second is a duplicate of the first: in one batch it adds nothing to what the first
  gives, and in a later call it is not accepted and the engine stays as it was.
\<close>

theorem fingerprint_truncation:
  assumes "convert F c1 = Some e1" and "convert F c2 = Some e2"
    and "map_option date_of (date e1) = map_option date_of (date e2)"
    and "take 100 (strip (lower (title e1))) = take 100 (strip (lower (title e2)))"
    and "ingest_llm_events F H [c1] s = Inr (new1, s1)"
  shows "ingest_llm_events F H [c1, c2] s = Inr (new1, s1) \<and>
         ingest_llm_events F H [c2] s1 = Inr ([], s1)"
proof -
  have fp: "fingerprint e2 = fingerprint e1" using assms(3,4) by (simp add: fingerprint_def)
  have "fingerprint e2 \<in> fingerprints (fst (ingest_step F H c1 (s, [])))"
    using assms(1) fp by (simp add: ingest_step_fingerprints)
  then have "ingest_step F H c2 (ingest_step F H c1 (s, [])) = ingest_step F H c1 (s, [])"
    using assms(2)
      ingest_step_known [of F c2 e2 "fst (ingest_step F H c1 (s, []))" H
        "snd (ingest_step F H c1 (s, []))"]
    by simp
  then have same: "ingest_llm_events F H [c1, c2] s = ingest_llm_events F H [c1] s"
    by (simp add: ingest_llm_events_def)
  have "fingerprint e2 \<in> fingerprints s1"
    using ingest_result_fingerprints [OF assms(5)] assms(1) fp by auto
  then have "ingest_llm_events F H [c2] s1 = Inr ([], s1)"
    using reingest_known [OF assms(2) _ ingest_result_stable [OF assms(5)]] by simp
  then show ?thesis using same assms(5) by simp
qed

theorem fingerprint_truncation_witness:
  "long_title (CHR ''x'') \<noteq> long_title (CHR ''y'') \<and>
   convert fromisoformat_ymd (long_candidate (CHR ''x'')) = Some (long_event (CHR ''x'')) \<and>
   convert fromisoformat_ymd (long_candidate (CHR ''y'')) = Some (long_event (CHR ''y'')) \<and>
   (\<exists>s1. ingest_llm_events fromisoformat_ymd id [long_candidate (CHR ''x'')] engine_plain
            = Inr ([long_event (CHR ''x'')], s1) \<and>
         ingest_llm_events fromisoformat_ymd id
            [long_candidate (CHR ''x''), long_candidate (CHR ''y'')] engine_plain
            = Inr ([long_event (CHR ''x'')], s1) \<and>
         ingest_llm_events fromisoformat_ymd id [long_candidate (CHR ''y'')] s1 = Inr ([], s1))"
proof -
  have d: "long_title (CHR ''x'') \<noteq> long_title (CHR ''y'')" by (simp add: long_title_def)
  have cx: "convert fromisoformat_ymd (long_candidate (CHR ''x'')) = Some (long_event (CHR ''x''))"
    by code_simp
  have cy: "convert fromisoformat_ymd (long_candidate (CHR ''y'')) = Some (long_event (CHR ''y''))"
    by code_simp
  have dt: "map_option date_of (date (long_event (CHR ''x'')))
            = map_option date_of (date (long_event (CHR ''y'')))"
    by (simp add: long_event_def)
  have tt: "take 100 (strip (lower (title (long_event (CHR ''x'')))))
            = take 100 (strip (lower (title (long_event (CHR ''y'')))))"
    by code_simp
  obtain s1 where r: "ingest_llm_events fromisoformat_ymd id [long_candidate (CHR ''x'')] engine_plain
      = Inr ([long_event (CHR ''x'')], s1)"
    using ingest_first [OF cx, of engine_plain id]
    by (simp add: engine_plain_def TimelineUltra_init_def)
  show ?thesis
    using fingerprint_truncation [OF cx cy dt tt r] d cx cy r by blast
qed

text \<open>
  C5. For every title and event type the score is the capped sum of four independent
  contributions: 0.4 for the type "loi", 0.2 for the type "decret", 0.3 when the
  lower-cased title contains "reforme" (with its accent) or "codification", 0.2 when it
  contains "travail", "social" or "emploi"; and the score lies between 0 and 1.
\<close>

theorem score_event_additive_capped:
  "score_event ttl etype =
     min ((if etype = ''loi'' then 4 / 10 else 0) +
          (if etype = ''decret'' then 2 / 10 else 0) +
          (if str_in reforme (lower ttl) \<or> str_in ''codification'' (lower ttl)
           then 3 / 10 else 0) +
          (if str_in ''travail'' (lower ttl) \<or> str_in ''social'' (lower ttl) \<or>
              str_in ''emploi'' (lower ttl)
           then 2 / 10 else 0)) 1
   \<and> 0 \<le> score_event ttl etype \<and> score_event ttl etype \<le> 1"
  by (simp add: score_event_def Let_def)



text \<open>
  C7. Clearing empties the event list and the fingerprint set and leaves the store (its
  mapping and its backing file) as it was: the engine then returns no event, and a
  candidate seen before is accepted again when it is re-ingested.
\<close>

theorem clear_frame:
  assumes "convert F c = Some e"
  shows "events (clear s) = [] \<and> fingerprints (clear s) = {} \<and>
         get_events (clear s) = Inr [] \<and> memory (clear s) = memory s \<and>
         (\<exists>s'. ingest_llm_events F H [c] (clear s) = Inr ([e], s') \<and> events s' = [e])"
  using assms
  by (simp add: clear_def get_events_def sort_by_date_def ingest_llm_events_def ingest_step_new)

theorem clear_frame_witness:
  "\<exists>s new. ingest_llm_events fromisoformat_ymd id [loi_travail] engine_stored = Inr (new, s) \<and>
     events s = [loi_travail_event] \<and>
     ingest_llm_events fromisoformat_ymd id [loi_travail] s = Inr ([], s) \<and>
     events (clear s) = [] \<and> fingerprints (clear s) = {} \<and> get_events (clear s) = Inr [] \<and>
     memory (clear s) = memory s \<and> memory s \<noteq> None \<and>
     (\<exists>s'. ingest_llm_events fromisoformat_ymd id [loi_travail] (clear s)
              = Inr ([loi_travail_event], s') \<and> events s' = [loi_travail_event])"
proof -
  have c: "convert fromisoformat_ymd loi_travail = Some loi_travail_event" by code_simp
  have e: "events engine_stored = []" by code_simp
  have f: "fingerprints engine_stored = {}" by code_simp
  have m: "memory engine_stored \<noteq> None" by code_simp
  define s where "s = engine_stored\<lparr>events := [loi_travail_event],
      fingerprints := {fingerprint loi_travail_event},
      memory := map_option (upsert_event id loi_travail_event) (memory engine_stored)\<rparr>"
  have r: "ingest_llm_events fromisoformat_ymd id [loi_travail] engine_stored
             = Inr ([loi_travail_event], s)"
    unfolding s_def by (rule ingest_first [OF c e f])
  have k: "ingest_llm_events fromisoformat_ymd id [loi_travail] s = Inr ([], s)"
    by (rule reingest_known [OF c]) (simp_all add: s_def sort_by_date_def)
  have ms: "memory s \<noteq> None" using m by (simp add: s_def)
  have es: "events s = [loi_travail_event]" by (simp add: s_def)
  show ?thesis
    using clear_frame [OF c, of s id] r k ms es by blast
qed

text \<open>
  C8. Bare-year fallback: the code does not do it. The text "En 2020." holds a bare
  year and nothing that an earlier strategy takes. The year pattern finds the year, but
  what \<^verbatim>\<open>findall\<close> hands over is the text of the group, "20", which is no date (the
  whole year would be one): the extractor returns no event, where the specification has
  a placeholder dated 1 January 2020.
\<close>

theorem bare_year_not_extracted:
  "findall_group1 year_pattern ''En 2020.'' = [''20''] \<and>
   parse_date_french (Some ''20'') = None \<and>
   parse_date_french (Some ''2020'') = Some ((2020, 1, 1), 0, 0, 0, 0) \<and>
   extract_events_from_last_response json_loads
     [\<lparr>role = ''assistant'', content = ''En 2020.''\<rparr>] = []"
proof -
  have y: "findall_group1 year_pattern ''En 2020.'' = [''20'']" by code_simp
  have p: "parse_date_french (Some ''20'') = None" by code_simp
  have q: "parse_date_french (Some ''2020'') = Some ((2020, 1, 1), 0, 0, 0, 0)" by code_simp
  have j: "re_search json_pattern ''En 2020.'' = None" by code_simp
  have h: "heuristic_events ''En 2020.'' [] = []" by code_simp
  have "extract_events_from_last_response json_loads
          [\<lparr>role = ''assistant'', content = ''En 2020.''\<rparr>] = []"
    using j h by (simp add: extract_events_from_last_response_def last_assistant_message_def)
  then show ?thesis using y p q by simp
qed

text \<open>
  C9 does not hold as the specification words it: a descriptor without a title entry
  is accepted, with the empty title.
\<close>

theorem missing_title_accepted:
  "ingest_llm_events fromisoformat_ymd id [untitled] engine_plain =
     Inr ([untitled_event],
          engine_plain\<lparr>events := [untitled_event], fingerprints := {(Some (2020, 1, 1), [])}\<rparr>) \<and>
   title untitled_event = []"
  by code_simp

text \<open>
  C9, amended. An accepted event carries its candidate's title unchanged, the empty
  string when the title entry is absent. A dictionary candidate that converts is
  accepted whatever its title, absent or blank included, when its fingerprint is not
  known to the engine and is not that of an earlier candidate of the batch; the rest of
  the batch is processed: every other converting candidate's fingerprint is known
  afterwards.
\<close>

theorem title_not_required:
  assumes "convert F (Dict ev) = Some e"
    and "fingerprint e \<notin> fingerprints s"
    and "\<forall>c\<in>set pre. \<forall>e0. convert F c = Some e0 \<longrightarrow> fingerprint e0 \<noteq> fingerprint e"
    and "ingest_llm_events F H (pre @ Dict ev # post) s = Inr (new, s')"
  shows "title e = get_default (d_title ev) [] \<and> e \<in> set new \<and> e \<in> set (events s') \<and>
         (\<forall>c\<in>set (pre @ post). \<forall>e'. convert F c = Some e' \<longrightarrow> fingerprint e' \<in> fingerprints s')"
proof -
  have t: "title e = get_default (d_title ev) []"
    using assms(1) by (auto simp: convert_def legal_event_of_dict_def split: date_entry.splits option.splits)
  define st0 where "st0 = ingest_loop F H pre (s, [])"
  have f0: "fingerprint e \<notin> fingerprints (fst st0)"
    using assms(2,3) by (auto simp: st0_def ingest_loop_fingerprints)
  define st1 where "st1 = ingest_step F H (Dict ev) st0"
  have "st1 = ingest_step F H (Dict ev) (fst st0, snd st0)" by (simp add: st1_def)
  then have s1: "snd st1 = snd st0 @ [e]"
    using ingest_step_new [OF assms(1) f0, of H "snd st0"] by simp
  define st2 where "st2 = ingest_loop F H post st1"
  have all: "ingest_loop F H (pre @ Dict ev # post) (s, []) = st2"
    by (simp add: ingest_loop_append st0_def st1_def st2_def)
  have "snd st2 = snd st1 @ snd (ingest_loop F H post (fst st1, []))"
    using ingest_loop_snd [of F H post "fst st1" "snd st1"] by (simp add: st2_def)
  then have in2: "e \<in> set (snd st2)" using s1 by simp
  obtain ys where ys: "sort_by_date (events (fst st2)) = Inr ys"
    and new: "new = snd st2" and s': "s' = (fst st2)\<lparr>events := ys\<rparr>"
    using assms(4) all by (auto simp: ingest_llm_events_def Let_def split: sum.splits)
  have "events (fst st2) = events s @ snd st2"
    using ingest_loop_events [of F H "pre @ Dict ev # post" s] all by simp
  moreover have "set ys = set (events (fst st2))"
    using sort_by_date_sorted [OF ys] by (metis set_mset_mset)
  ultimately have in3: "e \<in> set (events s')" using in2 s' by simp
  have "fingerprint e' \<in> fingerprints s'" if "c \<in> set (pre @ post)" "convert F c = Some e'" for c e'
    using ingest_result_fingerprints [OF assms(4)] that by auto
  then show ?thesis using t in2 in3 new by blast
qed

theorem title_not_required_witness:
  "d_title untitled_dict = None \<and>
   (\<exists>s'. ingest_llm_events fromisoformat_ymd id
            [loi_travail, Dict untitled_dict, long_candidate (CHR ''x'')] engine_plain
            = Inr ([loi_travail_event, untitled_event, long_event (CHR ''x'')], s') \<and>
          title untitled_event = [] \<and> untitled_event \<in> set (events s') \<and>
          fingerprint (long_event (CHR ''x'')) \<in> fingerprints s')"
proof -
  have c: "convert fromisoformat_ymd (Dict untitled_dict) = Some untitled_event" by code_simp
  have c1: "convert fromisoformat_ymd loi_travail = Some loi_travail_event" by code_simp
  have c2: "convert fromisoformat_ymd (long_candidate (CHR ''x'')) = Some (long_event (CHR ''x''))"
    by code_simp
  have f: "fingerprint untitled_event \<notin> fingerprints engine_plain" by code_simp
  have d: "fingerprint loi_travail_event \<noteq> fingerprint untitled_event" by code_simp
  have p: "\<forall>c\<in>set [loi_travail]. \<forall>e0. convert fromisoformat_ymd c = Some e0 \<longrightarrow>
             fingerprint e0 \<noteq> fingerprint untitled_event"
    using c1 d by simp
  define s' where "s' = engine_plain\<lparr>events := [loi_travail_event, untitled_event, long_event (CHR ''x'')],
      fingerprints := {fingerprint loi_travail_event, fingerprint untitled_event,
                       fingerprint (long_event (CHR ''x''))}\<rparr>"
  have r: "ingest_llm_events fromisoformat_ymd id
            ([loi_travail] @ Dict untitled_dict # [long_candidate (CHR ''x'')]) engine_plain
            = Inr ([loi_travail_event, untitled_event, long_event (CHR ''x'')], s')"
    unfolding s'_def by code_simp
  have t: "d_title untitled_dict = None" by (simp add: untitled_dict_def)
  show ?thesis
    using title_not_required [OF c f p r] r t c2 by (auto simp: get_default_def)
qed

text \<open>
  C10. Every event that the construction-time load builds from the store has score 0:
  the score entry of a payload has no part in the load (changing it changes nothing),
  although the store writes the event's score into the payload.
\<close>

theorem reload_discards_score:
  "(\<forall>e\<in>set (events (TimelineUltra_init F enable conv disk)). score e = 0) \<and>
   load_stored F (p\<lparr>p_score := v\<rparr>) s = load_stored F p s \<and>
   p_score (event_to_dict e) = Some (score e)"
  using init_inv [of F enable conv disk] load_stored_score_irrelevant [where F = F and p = p and v = v and s = s]
  by (simp add: event_to_dict_def)

theorem reload_discards_score_witness:
  "map (p_score \<circ> snd) (load_from_file file_after_first_turn) = [Some (6 / 10)] \<and>
   events (TimelineUltra_init fromisoformat_std True None file_after_first_turn)
     = [loi_travail_event\<lparr>score := 0\<rparr>] \<and>
   score (loi_travail_event\<lparr>score := 0\<rparr>) = 0"
proof -
  have w: "map (p_score \<circ> snd) (load_from_file file_after_first_turn) = [Some (6 / 10)]"
    by code_simp
  have r: "events (TimelineUltra_init fromisoformat_std True None file_after_first_turn)
     = [loi_travail_event\<lparr>score := 0\<rparr>]"
    by code_simp
  show ?thesis
    using reload_discards_score [of fromisoformat_std True None file_after_first_turn] w r
    by simp
qed

section \<open>Where the engine of core/ differs\<close>

text \<open>
  The properties above are those of TimelineUltra, the engine that the application
  constructs and the one with a store, a range query and a reset. The engine of core/
  compares whole normalised titles, lets a date that does not parse abort the batch
  (leaving the events appended so far unsorted), and scores with other weights.
\<close>

lemma TimelineEngine_no_truncation:
  "map_sum id (map ce_title)
     (fst (TimelineEngine_ingest_llm_events fromisoformat_ymd
             [long_dict (CHR ''x''), long_dict (CHR ''y'')] TimelineEngine_init))
   = Inr [long_title (CHR ''x''), long_title (CHR ''y'')]"
  by code_simp

lemma TimelineEngine_bad_date_raises:
  "fst (TimelineEngine_ingest_llm_events fromisoformat_ymd
          [long_dict (CHR ''x''), undated, loi_travail_dict] TimelineEngine_init)
   = Inl ValueError"
  by code_simp

lemma TimelineEngine_unsorted_after_raise:
  "map (date_of \<circ> ce_date)
     (TimelineEngine_get_events
        (snd (TimelineEngine_ingest_llm_events fromisoformat_ymd [loi_travail_dict, undated]
           (snd (TimelineEngine_ingest_llm_events fromisoformat_ymd [long_dict (CHR ''x'')]
              TimelineEngine_init)))))
   = [(2020, 1, 1), (2016, 8, 8)]"
  by code_simp

lemma detector_score_event_differs:
  "detector_score_event
     \<lparr>ce_date = ((2008, 5, 1), 0, 0, 0, 0), ce_title = ''Code du travail'',
      ce_source = ''llm'', ce_event_type = ''decret'', ce_text_id = None, ce_score = 0\<rparr> = 0 \<and>
   score_event ''Code du travail'' ''decret'' = 4 / 10"
  by code_simp

end
